theory Spec2Isabelle
  imports Main
begin

section \<open>The encodings registry of fs/encodings/encodings.go\<close>

text \<open>
  The file under verification declares one encoding constant per backend, each a
  bitwise OR of flags of package \<open>lib/encoder\<close>, and three functions: \<open>ByName\<close>,
  \<open>Local\<close> and \<open>Names\<close>. Package \<open>lib/encoder\<close> (the flags, the type
  \<open>MultiEncoder\<close>, the constant \<open>Standard\<close>, and the methods \<open>Encode\<close> and
  \<open>Decode\<close>) is not part of the sources at hand.
\<close>

subsection \<open>Flags and masks\<close>

text \<open>
  Modelled from the spec: the flag constants of \<open>lib/encoder\<close>, which the sources at hand
  use and do not declare. The constructors are the rows of the table of section 4.1 of the
  spec, under the names that table and \<open>encodings.go\<close> give them (\<open>EncodeLeftPeriod\<close>
  is a row of the table that no constant of \<open>encodings.go\<close> uses).
\<close>

datatype flag =
    EncodeZero
  | EncodeSlash
  | EncodeWin
  | EncodeBackSlash
  | EncodeDel
  | EncodeCtl
  | EncodeLeftSpace
  | EncodeRightSpace
  | EncodeLeftPeriod
  | EncodeRightPeriod
  | EncodeLeftTilde
  | EncodeLeftCrLfHtVt
  | EncodeRightCrLfHtVt
  | EncodeHashPercent
  | EncodeInvalidUtf8

text \<open>
  Modelled from the spec: the type \<open>encoder.MultiEncoder\<close>. Section 3 of the spec: a
  Policy is a set of active Rule Flags, represented as a bitmask. The mask of one flag
  \<open>f\<close> is \<open>{f}\<close>, and Go's \<open>|\<close> on masks is the union.
\<close>

type_synonym MultiEncoder = "flag set"

subsection \<open>The encoding constants\<close>

text \<open>
  \<open>encoder.Standard\<close> is declared in \<open>lib/encoder\<close> and the spec does not say which
  flags it has, so \<open>Display\<close> and the five constants built on it take it as the
  parameter \<open>Standard\<close>.
\<close>

definition Base :: MultiEncoder where
  "Base = {EncodeZero} \<union> {EncodeSlash}"

definition Display :: "MultiEncoder \<Rightarrow> MultiEncoder" where
  "Display Standard = Standard"

definition LocalUnix :: MultiEncoder where
  "LocalUnix = Base"

definition LocalWindows :: MultiEncoder where
  "LocalWindows =
     Base \<union> {EncodeWin} \<union> {EncodeBackSlash} \<union> {EncodeCtl} \<union> {EncodeRightSpace} \<union>
     {EncodeRightPeriod} \<union> {EncodeInvalidUtf8}"

definition AmazonCloudDrive :: MultiEncoder where
  "AmazonCloudDrive = Base \<union> {EncodeInvalidUtf8}"

definition B2 :: "MultiEncoder \<Rightarrow> MultiEncoder" where
  "B2 Standard = Display Standard \<union> {EncodeBackSlash} \<union> {EncodeInvalidUtf8}"

definition Box :: "MultiEncoder \<Rightarrow> MultiEncoder" where
  "Box Standard =
     Display Standard \<union> {EncodeBackSlash} \<union> {EncodeRightSpace} \<union> {EncodeInvalidUtf8}"

definition Drive :: MultiEncoder where
  "Drive = {EncodeInvalidUtf8}"

definition Dropbox :: MultiEncoder where
  "Dropbox =
     Base \<union> {EncodeBackSlash} \<union> {EncodeDel} \<union> {EncodeRightSpace} \<union> {EncodeInvalidUtf8}"

definition GoogleCloudStorage :: MultiEncoder where
  "GoogleCloudStorage = Base \<union> {EncodeInvalidUtf8}"

definition JottaCloud :: "MultiEncoder \<Rightarrow> MultiEncoder" where
  "JottaCloud Standard = Display Standard \<union> {EncodeInvalidUtf8}"

definition Koofr :: "MultiEncoder \<Rightarrow> MultiEncoder" where
  "Koofr Standard = Display Standard \<union> {EncodeBackSlash} \<union> {EncodeInvalidUtf8}"

definition Mega :: MultiEncoder where
  "Mega = Base \<union> {EncodeInvalidUtf8}"

definition OneDrive :: "MultiEncoder \<Rightarrow> MultiEncoder" where
  "OneDrive Standard =
     Display Standard \<union> {EncodeBackSlash} \<union> {EncodeHashPercent} \<union> {EncodeLeftSpace} \<union>
     {EncodeLeftTilde} \<union> {EncodeRightPeriod} \<union> {EncodeRightSpace} \<union> {EncodeWin} \<union>
     {EncodeInvalidUtf8}"

definition OpenDrive :: MultiEncoder where
  "OpenDrive =
     Base \<union> {EncodeWin} \<union> {EncodeLeftCrLfHtVt} \<union> {EncodeRightCrLfHtVt} \<union>
     {EncodeBackSlash} \<union> {EncodeLeftSpace} \<union> {EncodeRightSpace} \<union> {EncodeInvalidUtf8}"

definition Pcloud :: MultiEncoder where
  "Pcloud = Base \<union> {EncodeInvalidUtf8}"

subsection \<open>strings.ToLower\<close>

text \<open>
  A Go string is a sequence of bytes, here a \<open>string\<close> (a list of 8-bit characters).
  \<open>strings.ToLower\<close> of Go's standard library has two paths. On a string whose bytes
  are all below \<open>utf8.RuneSelf\<close> (0x80) it adds \<open>'a' - 'A'\<close> to every byte between
  \<open>'A'\<close> and \<open>'Z'\<close>. On any other string it returns
  \<open>strings.Map(unicode.ToLower, s)\<close>, which reads the case tables of the Unicode
  standard; that path is the parameter \<open>unicode_lower\<close>.
\<close>

definition byte :: "char \<Rightarrow> nat" where
  "byte c = of_char c"

definition isASCII :: "char \<Rightarrow> bool" where
  "isASCII c = (byte c < 0x80)"

definition lower_byte :: "char \<Rightarrow> char" where
  "lower_byte c =
     (if 0x41 \<le> byte c \<and> byte c \<le> 0x5A then char_of (byte c + 0x20) else c)"

definition ToLower :: "(string \<Rightarrow> string) \<Rightarrow> string \<Rightarrow> string" where
  "ToLower unicode_lower s =
     (if list_all isASCII s then map lower_byte s else unicode_lower s)"

subsection \<open>Local, ByName and Names\<close>

text \<open>\<open>runtime.GOOS\<close> is the parameter \<open>GOOS\<close>.\<close>

definition Local :: "string \<Rightarrow> MultiEncoder" where
  "Local GOOS = (if GOOS = ''windows'' then LocalWindows else LocalUnix)"

text \<open>
  \<open>ByName\<close> returns an \<open>encoder.Encoder\<close> interface value or \<open>nil\<close>: \<open>Some\<close> of
  the encoding, or \<open>None\<close>. The cases of the \<open>switch\<close> are tried in the order of the
  source; the cases commented out in the source are left out.
\<close>

definition ByName ::
  "MultiEncoder \<Rightarrow> string \<Rightarrow> (string \<Rightarrow> string) \<Rightarrow> string \<Rightarrow> MultiEncoder option" where
  "ByName Standard GOOS unicode_lower name =
     (let n = ToLower unicode_lower name in
      if n = ''base'' then Some Base
      else if n = ''display'' then Some (Display Standard)
      else if n = ''amazonclouddrive'' then Some AmazonCloudDrive
      else if n = ''b2'' then Some (B2 Standard)
      else if n = ''box'' then Some (Box Standard)
      else if n = ''drive'' then Some Drive
      else if n = ''dropbox'' then Some Dropbox
      else if n = ''googlecloudstorage'' then Some GoogleCloudStorage
      else if n = ''jottacloud'' then Some (JottaCloud Standard)
      else if n = ''koofr'' then Some (Koofr Standard)
      else if n = ''local'' then Some (Local GOOS)
      else if n = ''local-windows'' \<or> n = ''windows'' then Some LocalWindows
      else if n = ''local-unix'' \<or> n = ''unix'' then Some LocalUnix
      else if n = ''mega'' then Some Mega
      else if n = ''onedrive'' then Some (OneDrive Standard)
      else if n = ''opendrive'' then Some OpenDrive
      else if n = ''pcloud'' then Some Pcloud
      else None)"

definition Names :: "string list" where
  "Names =
     [''base'', ''display'', ''amazonclouddrive'', ''b2'', ''box'', ''drive'', ''dropbox'',
      ''googlecloudstorage'', ''jottacloud'', ''koofr'', ''local-unix'', ''local-windows'',
      ''local'', ''mega'', ''onedrive'', ''opendrive'', ''pcloud'']"

text \<open>The case labels of the \<open>switch\<close> of \<open>ByName\<close>, in the order of the source.\<close>

definition case_labels :: "string list" where
  "case_labels =
     [''base'', ''display'', ''amazonclouddrive'', ''b2'', ''box'', ''drive'', ''dropbox'',
      ''googlecloudstorage'', ''jottacloud'', ''koofr'', ''local'', ''local-windows'',
      ''windows'', ''local-unix'', ''unix'', ''mega'', ''onedrive'', ''opendrive'',
      ''pcloud'']"

section \<open>Encode and Decode\<close>

text \<open>
  The methods \<open>Encode\<close> and \<open>Decode\<close> of \<open>encoder.MultiEncoder\<close> are code of
  \<open>lib/encoder\<close>, which is not part of the sources at hand. This section models them from
  sections 3, 4.1 and 4.2 of the spec, on one raw name (one path segment), which is what
  the scenarios of section 8 of the spec encode. The substitute of a byte is the one the
  comments of \<open>encodings.go\<close> list: the FULLWIDTH form (code point + 0xFEE0) of a
  printable character, the SYMBOL FOR form (U+2400 + code point) of space, CR, LF, HT
  and VT. The spec says "reserved codepoint" for NUL, slash, DEL and the other control
  bytes and names none; the model continues the two families (SYMBOL FOR for the control
  bytes, U+2421 SYMBOL FOR DELETE for DEL, FULLWIDTH SOLIDUS for the slash).

  Where the spec leaves a choice the model takes the narrow one: a positional rule looks at
  the first byte or the last byte of the name only, not at a run, and the form of the escape
  of an invalid byte, which the spec calls private and does not give, is U+201B followed by
  the two upper-case hexadecimal digits of the byte. The spec says nothing on a name that
  already holds a substitute or the escape mark; the model adds nothing there.
\<close>

subsection \<open>The substitutes\<close>

text \<open>Modelled from the spec: the reserved code point that stands for a byte.\<close>

definition reserved :: "char \<Rightarrow> nat" where
  "reserved c =
     (if byte c \<le> 0x20 then 0x2400 + byte c
      else if byte c = 0x7F then 0x2421
      else 0xFEE0 + byte c)"

text \<open>
  Modelled from the spec: the UTF-8 encoding of a code point between U+0800 and U+FFFF
  (three bytes), where all the substitutes lie.
\<close>

definition utf8_3 :: "nat \<Rightarrow> string" where
  "utf8_3 cp =
     [char_of (0xE0 + cp div 0x1000), char_of (0x80 + cp div 0x40 mod 0x40),
      char_of (0x80 + cp mod 0x40)]"

definition substitute :: "char \<Rightarrow> string" where
  "substitute c = utf8_3 (reserved c)"

definition is_cont :: "char \<Rightarrow> bool" where
  "is_cont c = (0x80 \<le> byte c \<and> byte c \<le> 0xBF)"

text \<open>
  Modelled from the spec: the inverse of \<open>substitute\<close>, the byte that the three bytes
  \<open>a b c\<close> stand for, if they encode a reserved code point.
\<close>

definition original :: "char \<Rightarrow> char \<Rightarrow> char \<Rightarrow> char option" where
  "original a b c =
     (if 0xE0 \<le> byte a \<and> byte a \<le> 0xEF \<and> is_cont b \<and> is_cont c then
        (let cp = (byte a - 0xE0) * 0x1000 + (byte b - 0x80) * 0x40 + (byte c - 0x80) in
         if 0x2400 \<le> cp \<and> cp \<le> 0x2420 then Some (char_of (cp - 0x2400))
         else if cp = 0x2421 then Some (char_of (0x7F :: nat))
         else if 0xFF01 \<le> cp \<and> cp \<le> 0xFF5E then Some (char_of (cp - 0xFEE0))
         else None)
      else None)"

subsection \<open>The triggers of the flags\<close>

text \<open>
  Modelled from the spec: the table of section 4.1. The content-level rules are Zero,
  Slash, Win, BackSlash, Del, Ctl and HashPercent (section 4.2). The set of
  \<open>EncodeWin\<close> has the vertical line as well: the comment of \<open>LocalWindows\<close> in
  \<open>encodings.go\<close> lists it among the replaced characters and no other flag of
  \<open>LocalWindows\<close> has it.
\<close>

definition content_trigger :: "MultiEncoder \<Rightarrow> char \<Rightarrow> bool" where
  "content_trigger m c =
     ((EncodeZero \<in> m \<and> byte c = 0) \<or>
      (EncodeSlash \<in> m \<and> c = CHR ''/'') \<or>
      (EncodeWin \<in> m \<and>
         c \<in> set [CHR ''<'', CHR ''>'', CHR '':'', CHR 0x22, CHR ''|'', CHR ''?'', CHR ''*'']) \<or>
      (EncodeBackSlash \<in> m \<and> c = CHR 0x5C) \<or>
      (EncodeDel \<in> m \<and> byte c = 0x7F) \<or>
      (EncodeCtl \<in> m \<and> byte c \<le> 0x1F) \<or>
      (EncodeHashPercent \<in> m \<and> (c = CHR ''#'' \<or> c = CHR ''%'')))"

definition is_CrLfHtVt :: "char \<Rightarrow> bool" where
  "is_CrLfHtVt c = (byte c = 0x0D \<or> byte c = 0x0A \<or> byte c = 0x09 \<or> byte c = 0x0B)"

definition left_trigger :: "MultiEncoder \<Rightarrow> char \<Rightarrow> bool" where
  "left_trigger m c =
     ((EncodeLeftSpace \<in> m \<and> c = CHR '' '') \<or>
      (EncodeLeftPeriod \<in> m \<and> c = CHR ''.'') \<or>
      (EncodeLeftTilde \<in> m \<and> c = CHR ''~'') \<or>
      (EncodeLeftCrLfHtVt \<in> m \<and> is_CrLfHtVt c))"

definition right_trigger :: "MultiEncoder \<Rightarrow> char \<Rightarrow> bool" where
  "right_trigger m c =
     ((EncodeRightSpace \<in> m \<and> c = CHR '' '') \<or>
      (EncodeRightPeriod \<in> m \<and> c = CHR ''.'') \<or>
      (EncodeRightCrLfHtVt \<in> m \<and> is_CrLfHtVt c))"

subsection \<open>Encode\<close>

text \<open>Modelled from the spec: the content-level rules, on every byte of the name.\<close>

fun encode_content :: "MultiEncoder \<Rightarrow> string \<Rightarrow> string" where
  "encode_content m [] = []"
| "encode_content m (c # s) =
     (if content_trigger m c then substitute c else [c]) @ encode_content m s"

text \<open>
  Modelled from the spec: the position-level rules, on the boundary bytes of the name
  after the content-level rules.
\<close>

definition encode_left :: "MultiEncoder \<Rightarrow> string \<Rightarrow> string" where
  "encode_left m s =
     (case s of [] \<Rightarrow> [] | c # r \<Rightarrow> if left_trigger m c then substitute c @ r else s)"

definition encode_right :: "MultiEncoder \<Rightarrow> string \<Rightarrow> string" where
  "encode_right m s =
     (if s = [] then []
      else if right_trigger m (last s) then butlast s @ substitute (last s) else s)"

text \<open>
  Modelled from the spec: valid UTF-8. \<open>rune_len s\<close> is the number of bytes of the
  well-formed UTF-8 sequence at the head of \<open>s\<close>, and 0 if there is none.
\<close>

definition second_lo :: "char \<Rightarrow> nat" where
  "second_lo a = (if byte a = 0xE0 then 0xA0 else if byte a = 0xF0 then 0x90 else 0x80)"

definition second_hi :: "char \<Rightarrow> nat" where
  "second_hi a = (if byte a = 0xED then 0x9F else if byte a = 0xF4 then 0x8F else 0xBF)"

fun rune_len :: "string \<Rightarrow> nat" where
  "rune_len [] = 0"
| "rune_len (a # s) =
     (if byte a < 0x80 then 1
      else if 0xC2 \<le> byte a \<and> byte a \<le> 0xDF then
        (case s of b # _ \<Rightarrow> if is_cont b then 2 else 0 | _ \<Rightarrow> 0)
      else if 0xE0 \<le> byte a \<and> byte a \<le> 0xEF then
        (case s of
           b # c # _ \<Rightarrow>
             if second_lo a \<le> byte b \<and> byte b \<le> second_hi a \<and> is_cont c then 3 else 0
         | _ \<Rightarrow> 0)
      else if 0xF0 \<le> byte a \<and> byte a \<le> 0xF4 then
        (case s of
           b # c # d # _ \<Rightarrow>
             if second_lo a \<le> byte b \<and> byte b \<le> second_hi a \<and> is_cont c \<and> is_cont d
             then 4 else 0
         | _ \<Rightarrow> 0)
      else 0)"

text \<open>
  Modelled from the spec: the escape of one invalid byte, and the pass that escapes every
  byte that is not part of a well-formed sequence. The first argument of
  \<open>escape_invalid\<close> counts the bytes of the current sequence still to copy.
\<close>

definition hex_digit :: "nat \<Rightarrow> char" where
  "hex_digit n = (if n < 10 then char_of (0x30 + n) else char_of (0x41 + (n - 10)))"

definition escape :: "char \<Rightarrow> string" where
  "escape c =
     [CHR 0xE2, CHR 0x80, CHR 0x9B, hex_digit (byte c div 16), hex_digit (byte c mod 16)]"

fun escape_invalid :: "nat \<Rightarrow> string \<Rightarrow> string" where
  "escape_invalid k [] = []"
| "escape_invalid (Suc k) (a # s) = a # escape_invalid k s"
| "escape_invalid 0 (a # s) =
     (case rune_len (a # s) of
        0 \<Rightarrow> escape a @ escape_invalid 0 s
      | Suc k \<Rightarrow> a # escape_invalid k s)"

text \<open>
  Modelled from the spec: \<open>Encode\<close>, section 4.2: the content-level rules first, the
  position-level rules on the content-encoded name second, the escape of invalid UTF-8
  last.
\<close>

definition Encode :: "MultiEncoder \<Rightarrow> string \<Rightarrow> string" where
  "Encode m name =
     (let s1 = encode_content m name;
          s2 = encode_right m (encode_left m s1)
      in if EncodeInvalidUtf8 \<in> m then escape_invalid 0 s2 else s2)"

subsection \<open>Decode\<close>

definition hex_value :: "char \<Rightarrow> nat option" where
  "hex_value c =
     (if 0x30 \<le> byte c \<and> byte c \<le> 0x39 then Some (byte c - 0x30)
      else if 0x41 \<le> byte c \<and> byte c \<le> 0x46 then Some (byte c - 0x41 + 10)
      else None)"

text \<open>Modelled from the spec: the inverse of the escape of invalid bytes.\<close>

fun unescape :: "string \<Rightarrow> string" where
  "unescape (a # b # c # h # l # s) =
     (if [a, b, c] = [CHR 0xE2, CHR 0x80, CHR 0x9B] then
        (case (hex_value h, hex_value l) of
           (Some x, Some y) \<Rightarrow> char_of (16 * x + y) # unescape s
         | _ \<Rightarrow> a # unescape (b # c # h # l # s))
      else a # unescape (b # c # h # l # s))"
| "unescape s = s"

text \<open>Modelled from the spec: the inverses of the position-level rules.\<close>

definition decode_left :: "MultiEncoder \<Rightarrow> string \<Rightarrow> string" where
  "decode_left m s =
     (case s of
        a # b # c # r \<Rightarrow>
          (case original a b c of
             Some x \<Rightarrow> if left_trigger m x then x # r else s
           | None \<Rightarrow> s)
      | _ \<Rightarrow> s)"

definition decode_right :: "MultiEncoder \<Rightarrow> string \<Rightarrow> string" where
  "decode_right m s =
     (case rev s of
        c # b # a # r \<Rightarrow>
          (case original a b c of
             Some x \<Rightarrow> if right_trigger m x then rev r @ [x] else s
           | None \<Rightarrow> s)
      | _ \<Rightarrow> s)"

text \<open>Modelled from the spec: the inverse of the content-level rules.\<close>

fun decode_content :: "MultiEncoder \<Rightarrow> string \<Rightarrow> string" where
  "decode_content m (a # b # c # s) =
     (case original a b c of
        Some x \<Rightarrow>
          if content_trigger m x then x # decode_content m s
          else a # decode_content m (b # c # s)
      | None \<Rightarrow> a # decode_content m (b # c # s))"
| "decode_content m s = s"

text \<open>
  Modelled from the spec: \<open>Decode\<close>, section 4.2: the inverse of every active flag, in
  the reverse of the order of \<open>Encode\<close>.
\<close>

definition Decode :: "MultiEncoder \<Rightarrow> string \<Rightarrow> string" where
  "Decode m name =
     (let s1 = (if EncodeInvalidUtf8 \<in> m then unescape name else name);
          s2 = decode_left m (decode_right m s1)
      in decode_content m s2)"

section \<open>Properties of the registry\<close>

subsection \<open>Lower-casing\<close>

lemma lower_byte_ascii: "isASCII c \<Longrightarrow> isASCII (lower_byte c)"
  by (auto simp add: isASCII_def lower_byte_def byte_def)

lemma lower_byte_idem: "lower_byte (lower_byte c) = lower_byte c"
  by (auto simp add: lower_byte_def byte_def)

lemma ToLower_ascii_idem:
  assumes "list_all isASCII s"
  shows "ToLower ul (ToLower ul s) = ToLower ul s"
proof -
  have "list_all isASCII (map lower_byte s)"
    using assms by (induction s) (simp_all add: lower_byte_ascii)
  then show ?thesis
    using assms by (simp add: ToLower_def lower_byte_idem)
qed

lemmas lower_eval = ToLower_def isASCII_def lower_byte_def byte_def char_of_eq_iff

lemma Names_lower: "n \<in> set Names \<Longrightarrow> ToLower ul n = n"
  by (auto simp add: Names_def lower_eval)

lemma Names_labels: "n \<in> set Names \<Longrightarrow> n \<in> set case_labels"
  by (auto simp add: Names_def case_labels_def)

lemma ByName_None_iff:
  "(ByName std goos ul n = None) = (ToLower ul n \<notin> set case_labels)"
  by (simp add: ByName_def case_labels_def Let_def)

lemma ByName_Names: "n \<in> set Names \<Longrightarrow> ByName std goos ul n \<noteq> None"
  by (simp add: ByName_None_iff Names_lower Names_labels)

subsection \<open>The claims on the registry\<close>

text \<open>
  C2. Registry lookup is case-insensitive: \<open>ByName n\<close> is \<open>ByName\<close> of the lower-case
  form of \<open>n\<close>, and \<open>ByName "DROPBOX"\<close> and \<open>ByName "dropbox"\<close> are the same encoding.
  The theorem holds for every name of ASCII bytes whatever the Unicode tables are, and for
  every other name at which lower-casing the already lower-cased name changes nothing,
  which is what the case tables of the Unicode standard give.
\<close>

theorem ByName_case_insensitive:
  assumes "list_all isASCII n \<or> ToLower ul (ul n) = ul n"
  shows "ByName std goos ul n = ByName std goos ul (ToLower ul n) \<and>
         ByName std goos ul ''DROPBOX'' = ByName std goos ul ''dropbox'' \<and>
         ByName std goos ul ''DROPBOX'' = Some Dropbox"
proof -
  have idem: "ToLower ul (ToLower ul n) = ToLower ul n"
  proof (cases "list_all isASCII n")
    case True
    then show ?thesis by (rule ToLower_ascii_idem)
  next
    case False
    with assms show ?thesis by (simp add: ToLower_def)
  qed
  have general: "ByName std goos ul n = ByName std goos ul (ToLower ul n)"
    by (simp add: ByName_def idem)
  have upper: "ToLower ul ''DROPBOX'' = ''dropbox''"
    by (simp add: lower_eval)
  have lower: "ToLower ul ''dropbox'' = ''dropbox''"
    by (simp add: lower_eval)
  have "ByName std goos ul ''DROPBOX'' = Some Dropbox"
    by (simp add: ByName_def upper)
  moreover have "ByName std goos ul ''dropbox'' = Some Dropbox"
    by (simp add: ByName_def lower)
  ultimately show ?thesis
    using general by simp
qed

text \<open>
  The witness takes the mixed-case ASCII name \<open>DropBox\<close>, and the two bytes of U+00C9
  (capital E with acute) under a lower-casing that sends them to the two bytes of U+00E9.
\<close>

theorem ByName_case_insensitive_witness:
  "list_all isASCII ''DropBox'' \<and>
   ByName Base ''linux'' (\<lambda>s. s) ''DropBox'' =
     ByName Base ''linux'' (\<lambda>s. s) (ToLower (\<lambda>s. s) ''DropBox'') \<and>
   ToLower (\<lambda>s. s) ''DropBox'' = ''dropbox'' \<and>
   \<not> list_all isASCII [CHR 0xC3, CHR 0x89] \<and>
   ByName Base ''linux'' (\<lambda>s. if s = [CHR 0xC3, CHR 0x89] then [CHR 0xC3, CHR 0xA9] else s)
       [CHR 0xC3, CHR 0x89] =
     ByName Base ''linux'' (\<lambda>s. if s = [CHR 0xC3, CHR 0x89] then [CHR 0xC3, CHR 0xA9] else s)
       [CHR 0xC3, CHR 0xA9]"
  using ByName_case_insensitive [where n = "''DropBox''" and ul = "\<lambda>s. s" and std = Base
      and goos = "''linux''"]
    ByName_case_insensitive [where n = "[CHR 0xC3, CHR 0x89]"
      and ul = "\<lambda>s. if s = [CHR 0xC3, CHR 0x89] then [CHR 0xC3, CHR 0xA9] else s"
      and std = Base and goos = "''linux''"]
  by (simp add: lower_eval)

text \<open>
  C3. A name whose lower-case form is none of the case labels of the \<open>switch\<close> gets
  \<open>nil\<close>. \<open>ByName\<close> has no other failure: the source has no operation that can panic,
  and the model is a total function into \<open>MultiEncoder option\<close>.
\<close>

theorem ByName_unknown_is_nil:
  assumes "ToLower ul n \<notin> set case_labels"
  shows "ByName std goos ul n = None"
  using assms by (simp add: ByName_def case_labels_def Let_def)

text \<open>The witness is \<open>S3\<close>, a backend whose case is commented out in the source.\<close>

theorem ByName_unknown_is_nil_witness:
  "ToLower (\<lambda>s. s) ''S3'' \<notin> set case_labels \<and> ByName Base ''linux'' (\<lambda>s. s) ''S3'' = None"
proof -
  have h: "ToLower (\<lambda>s. s) ''S3'' \<notin> set case_labels"
    by (simp add: case_labels_def lower_eval)
  show ?thesis
    using h ByName_unknown_is_nil [OF h, of Base "''linux''"] by simp
qed

text \<open>
  C4. \<open>Local\<close> is \<open>LocalWindows\<close> exactly when \<open>runtime.GOOS\<close> is \<open>windows\<close>, and
  \<open>LocalUnix\<close> otherwise; \<open>ByName "local"\<close> is that same encoding.
\<close>

theorem Local_by_platform:
  "(Local goos = LocalWindows) = (goos = ''windows'') \<and>
   (Local goos = LocalUnix) = (goos \<noteq> ''windows'') \<and>
   ByName std goos ul ''local'' = Some (Local goos)"
proof -
  have "LocalWindows \<noteq> LocalUnix"
    by (auto simp add: LocalWindows_def LocalUnix_def Base_def)
  moreover have "ToLower ul ''local'' = ''local''"
    by (simp add: lower_eval)
  then have "ByName std goos ul ''local'' = Some (Local goos)"
    by (simp add: ByName_def)
  ultimately show ?thesis
    by (auto simp add: Local_def)
qed

text \<open>C5. Every name of \<open>Names()\<close> resolves: \<open>ByName\<close> of it is not \<open>nil\<close>.\<close>

theorem Names_resolve:
  assumes "n \<in> set Names"
  shows "ByName std goos ul n \<noteq> None"
  using assms by (rule ByName_Names)

theorem Names_resolve_witness:
  "''onedrive'' \<in> set Names \<and> ByName Base ''linux'' (\<lambda>s. s) ''onedrive'' = Some (OneDrive Base)"
proof -
  have h: "''onedrive'' \<in> set Names"
    by (simp add: Names_def)
  have "ByName Base ''linux'' (\<lambda>s. s) ''onedrive'' \<noteq> None"
    using Names_resolve [OF h] .
  moreover have "ByName Base ''linux'' (\<lambda>s. s) ''onedrive'' = Some (OneDrive Base)"
    by (simp add: ByName_def lower_eval)
  ultimately show ?thesis
    using h by simp
qed

text \<open>
  C10. \<open>ByName\<close> accepts strictly more names than \<open>Names()\<close> lists: the aliases
  \<open>windows\<close> and \<open>unix\<close> give the encodings of \<open>local-windows\<close> and \<open>local-unix\<close>,
  and neither alias is in \<open>Names()\<close>.
\<close>

theorem aliases_outside_Names:
  "ByName std goos ul ''windows'' = Some LocalWindows \<and>
   ByName std goos ul ''local-windows'' = Some LocalWindows \<and>
   ByName std goos ul ''unix'' = Some LocalUnix \<and>
   ByName std goos ul ''local-unix'' = Some LocalUnix \<and>
   ''windows'' \<notin> set Names \<and> ''unix'' \<notin> set Names \<and>
   set Names \<subset> {n. ByName std goos ul n \<noteq> None}"
proof -
  have w: "ByName std goos ul ''windows'' = Some LocalWindows"
    by (simp add: ByName_def lower_eval)
  have lw: "ByName std goos ul ''local-windows'' = Some LocalWindows"
    by (simp add: ByName_def lower_eval)
  have u: "ByName std goos ul ''unix'' = Some LocalUnix"
    by (simp add: ByName_def lower_eval)
  have lu: "ByName std goos ul ''local-unix'' = Some LocalUnix"
    by (simp add: ByName_def lower_eval)
  have nw: "''windows'' \<notin> set Names" and nu: "''unix'' \<notin> set Names"
    by (simp_all add: Names_def)
  have "set Names \<subseteq> {n. ByName std goos ul n \<noteq> None}"
    using ByName_Names by blast
  moreover have "''windows'' \<in> {n. ByName std goos ul n \<noteq> None}"
    using w by simp
  ultimately have "set Names \<subset> {n. ByName std goos ul n \<noteq> None}"
    using nw by blast
  with w lw u lu nw nu show ?thesis
    by simp
qed

section \<open>The scenarios of Encode and Decode\<close>

text \<open>
  The three claims of this section are settled on the model of \<open>Encode\<close> and \<open>Decode\<close>
  written from the spec, at the names the spec gives. Each of these names is plain ASCII
  with one boundary character, so the choices the model makes where the spec is silent do
  not enter.
\<close>

lemma escape_invalid_skip:
  "0 < k \<Longrightarrow> escape_invalid k (a # s) = a # escape_invalid (k - 1) s"
  by (cases k) simp_all

lemmas encoder_eval =
  Encode_def Decode_def encode_left_def encode_right_def decode_left_def decode_right_def
  content_trigger_def left_trigger_def right_trigger_def is_CrLfHtVt_def
  substitute_def reserved_def utf8_3_def original_def is_cont_def byte_def
  second_lo_def second_hi_def escape_def hex_digit_def hex_value_def Let_def
  escape_invalid_skip char_of_def bit_Suc_0_iff

text \<open>
  C6. \<open>LocalUnix\<close> is \<open>Base\<close>, the flags \<open>EncodeZero\<close> and \<open>EncodeSlash\<close> and no
  other. Encoding \<open>a/b\x00c\<close> under it replaces the slash and the NUL byte by their
  reserved code points (U+FF0F and U+2400) and leaves the letters, and decoding the result
  gives the name back.
\<close>

theorem LocalUnix_scenario:
  "LocalUnix = Base \<and> LocalUnix = {EncodeZero, EncodeSlash} \<and>
   Encode LocalUnix [CHR ''a'', CHR ''/'', CHR ''b'', CHR 0x00, CHR ''c''] =
     [CHR ''a''] @ substitute (CHR ''/'') @ [CHR ''b''] @ substitute (CHR 0x00) @ [CHR ''c''] \<and>
   substitute (CHR ''/'') = [CHR 0xEF, CHR 0xBC, CHR 0x8F] \<and>
   substitute (CHR 0x00) = [CHR 0xE2, CHR 0x90, CHR 0x80] \<and>
   Decode LocalUnix
     (Encode LocalUnix [CHR ''a'', CHR ''/'', CHR ''b'', CHR 0x00, CHR ''c'']) =
     [CHR ''a'', CHR ''/'', CHR ''b'', CHR 0x00, CHR ''c'']"
proof -
  have base: "LocalUnix = Base"
    by (simp add: LocalUnix_def)
  have flags: "LocalUnix = {EncodeZero, EncodeSlash}"
    by (auto simp add: LocalUnix_def Base_def)
  have sl: "substitute (CHR ''/'') = [CHR 0xEF, CHR 0xBC, CHR 0x8F]"
    by (simp add: encoder_eval)
  have nul: "substitute (CHR 0x00) = [CHR 0xE2, CHR 0x90, CHR 0x80]"
    by (simp add: encoder_eval)
  have enc: "Encode LocalUnix [CHR ''a'', CHR ''/'', CHR ''b'', CHR 0x00, CHR ''c''] =
      [CHR ''a'', CHR 0xEF, CHR 0xBC, CHR 0x8F, CHR ''b'', CHR 0xE2, CHR 0x90, CHR 0x80, CHR ''c'']"
    by (simp add: flags encoder_eval)
  have dec: "Decode LocalUnix
      [CHR ''a'', CHR 0xEF, CHR 0xBC, CHR 0x8F, CHR ''b'', CHR 0xE2, CHR 0x90, CHR 0x80, CHR ''c''] =
      [CHR ''a'', CHR ''/'', CHR ''b'', CHR 0x00, CHR ''c'']"
    by (simp add: flags encoder_eval)
  have enc': "Encode LocalUnix [CHR ''a'', CHR ''/'', CHR ''b'', CHR 0x00, CHR ''c''] =
      [CHR ''a''] @ substitute (CHR ''/'') @ [CHR ''b''] @ substitute (CHR 0x00) @ [CHR ''c'']"
    by (simp only: enc sl nul append.simps)
  have dec': "Decode LocalUnix
      (Encode LocalUnix [CHR ''a'', CHR ''/'', CHR ''b'', CHR 0x00, CHR ''c'']) =
      [CHR ''a'', CHR ''/'', CHR ''b'', CHR 0x00, CHR ''c'']"
    by (simp only: enc dec)
  show ?thesis
    by (rule conjI base flags enc' sl nul dec')+
qed

subsection \<open>Names of plain ASCII bytes under LocalWindows\<close>







lemma rune_len_ascii: "isASCII a \<Longrightarrow> rune_len (a # r) = 1"
  by (simp add: isASCII_def)

lemma escape_invalid_ascii:
  "list_all isASCII s \<Longrightarrow> escape_invalid 0 (s @ t) = s @ escape_invalid 0 t"
  by (induction s) (simp_all add: rune_len_ascii del: rune_len.simps)

lemma escape_invalid_ascii_all: "list_all isASCII s \<Longrightarrow> escape_invalid 0 s = s"
  using escape_invalid_ascii [of s "[]"] by simp

















text \<open>
  C8. \<open>OneDrive\<close> has \<open>EncodeLeftTilde\<close>, whatever the flags of \<open>encoder.Standard\<close>
  are. Encoding \<open>"~folder"\<close> replaces the leading tilde by the fullwidth tilde (U+FF5E),
  and decoding the result gives \<open>"~folder"\<close> back.
\<close>

theorem OneDrive_scenario:
  "EncodeLeftTilde \<in> OneDrive std \<and>
   Encode (OneDrive std) ''~folder'' = substitute (CHR ''~'') @ ''folder'' \<and>
   substitute (CHR ''~'') = [CHR 0xEF, CHR 0xBD, CHR 0x9E] \<and>
   Decode (OneDrive std) (Encode (OneDrive std) ''~folder'') = ''~folder''"
proof -
  have ti: "substitute (CHR ''~'') = [CHR 0xEF, CHR 0xBD, CHR 0x9E]"
    by (simp add: encoder_eval)
  have e: "Encode (OneDrive std) ''~folder'' = [CHR 0xEF, CHR 0xBD, CHR 0x9E] @ ''folder''"
    by (simp add: OneDrive_def Display_def encoder_eval)
  have d: "Decode (OneDrive std) ([CHR 0xEF, CHR 0xBD, CHR 0x9E] @ ''folder'') = ''~folder''"
    by (simp add: OneDrive_def Display_def encoder_eval)
  have fl: "EncodeLeftTilde \<in> OneDrive std"
    by (simp add: OneDrive_def)
  show ?thesis
    by (simp only: fl ti e d simp_thms)
qed

end
